theory Spec2Isabelle
  imports Complex_Main
begin

section \<open>Data model of the contraction clock (src/src/App.jsx)\<close>

text \<open>
  Timestamps and durations in milliseconds are \<open>int\<close> (they come from
  \<open>Date.now()\<close> and differences of such values); pixel positions, intensities and
  averages are \<open>real\<close>. The arithmetic on them is exact, except in the second model
  of the segment builder below, which rounds every operation as double precision does
  and decides what the widths add up to.

  The file src/unnamed/part_000 is another version of the same component. Its
  \<open>gauss\<close>, its \<open>toggleContraction\<close>, its initialiser of \<open>contractions\<close> and its
  segment builder are the code modelled here, line by line; its \<open>formatDuration\<close>
  rounds down where this one rounds to nearest, which changes the labels of the gaps
  and none of their widths.
\<close>

text \<open>
  One entry of the \<open>contractions\<close> array, as \<open>toggleContraction\<close> builds it:
  \<open>{ id, start, end, duration, intensity }\<close>. The field names carry the prefix
  \<open>c_\<close> (the source's loop variable), since \<open>id\<close> and \<open>end\<close> are taken.
\<close>

record contraction =
  c_id :: int
  c_start :: int
  c_end :: int
  c_duration :: int
  c_intensity :: real

text \<open>
  The React state of the component \<open>ContractionClock\<close>: one field per
  \<open>useState\<close> that the computations below read. \<open>activeStart\<close> is \<open>null\<close>
  or a timestamp.
\<close>

record session =
  contractions :: "contraction list"
  activeStart :: "int option"
  liveScroll :: bool
  intensity :: int
  now :: int
  containerWidth :: real

text \<open>
  JavaScript truthiness of a timestamp-or-null (\<open>if (activeStart)\<close>,
  \<open>if (!activeStart)\<close>): \<open>null\<close> and the number \<open>0\<close> are falsy, every other
  timestamp is truthy. \<open>truthy_ts a\<close> is \<open>Some t\<close> exactly when \<open>a\<close> is the truthy
  timestamp \<open>t\<close>.
\<close>

definition truthy_ts :: "int option \<Rightarrow> int option" where
  "truthy_ts a = (case a of None \<Rightarrow> None | Some t \<Rightarrow> if t = 0 then None else Some t)"

subsection \<open>toggleContraction and clearSession\<close>

text \<open>
  \<open>toggleContraction\<close> reads the wall clock (\<open>Date.now()\<close>, the argument
  \<open>date_now\<close>) only when it starts a contraction; when it ends one it measures the
  elapsed time against the state's \<open>now\<close>, the value of the last tick.
\<close>

definition toggleContraction :: "int \<Rightarrow> session \<Rightarrow> session" where
  "toggleContraction date_now s =
     (case truthy_ts (activeStart s) of
        None \<Rightarrow> s\<lparr>activeStart := Some date_now\<rparr>
      | Some a \<Rightarrow>
          (let duration = now s - a
           in if duration < 1000 then s\<lparr>activeStart := None\<rparr>
              else s\<lparr>contractions := contractions s @
                         [\<lparr>c_id = a, c_start = a, c_end = now s, c_duration = duration,
                           c_intensity = real_of_int (intensity s) / 10\<rparr>],
                      activeStart := None\<rparr>))"

definition clearSession :: "session \<Rightarrow> session" where
  "clearSession s = s\<lparr>contractions := [], activeStart := None\<rparr>"

subsection \<open>Helper functions\<close>

definition Y_AXIS_W :: real where "Y_AXIS_W = 44"
definition PX_PER_SEC :: real where "PX_PER_SEC = 4"
definition MIN_REST_PX :: real where "MIN_REST_PX = 32"
definition LEAD_PX :: real where "LEAD_PX = 24"

definition secPx :: "int \<Rightarrow> real" where
  "secPx ms = (real_of_int ms / 1000) * PX_PER_SEC"

text \<open>Decimal printing of an integer, as a template literal prints a number.\<close>

function show_nat :: "nat \<Rightarrow> string" where
  "show_nat n =
     (if n < 10 then [char_of (48 + n)]
      else show_nat (n div 10) @ [char_of (48 + n mod 10)])"
  by pat_completeness auto
termination
  by (relation "measure (\<lambda>n. n)") auto

declare show_nat.simps [simp del]

definition show_int :: "int \<Rightarrow> string" where
  "show_int i = (if i < 0 then CHR ''-'' # show_nat (nat (- i)) else show_nat (nat i))"

text \<open>The remainder operator \<open>%\<close>: the result has the sign of the dividend.\<close>

definition js_rem :: "int \<Rightarrow> int \<Rightarrow> int" where
  "js_rem a b = sgn a * (\<bar>a\<bar> mod \<bar>b\<bar>)"

text \<open>
  \<open>formatDuration\<close>: \<open>Math.round\<close> rounds to the nearest integer, a tie upwards;
  \<open>Math.floor (s / 60)\<close> is the floor division of integers.
\<close>

definition formatDuration :: "int \<Rightarrow> string" where
  "formatDuration ms =
     (let s = \<lfloor>real_of_int ms / 1000 + 1 / 2\<rfloor>;
          m = s div 60
      in if m > 0 then show_int m @ ''m '' @ show_int (js_rem s 60) @ ''s''
         else show_int s @ ''s'')"

subsection \<open>Chart segments\<close>

text \<open>
  The objects pushed on \<open>segments\<close>. A field that an object literal of the source
  leaves out is \<open>None\<close> (\<open>False\<close> for \<open>active\<close>, which the renderer only tests for
  truthiness).
\<close>

datatype seg_type = Flat | Bell

record segment =
  seg_type :: seg_type
  seg_x :: real
  seg_widthPx :: real
  seg_label :: "string option"
  seg_c :: "contraction option"
  seg_active :: bool
  seg_progress :: "real option"
  seg_intensity :: "real option"

definition flat_seg :: "real \<Rightarrow> real \<Rightarrow> string option \<Rightarrow> segment" where
  "flat_seg x0 w l =
     \<lparr>seg_type = Flat, seg_x = x0, seg_widthPx = w, seg_label = l, seg_c = None,
      seg_active = False, seg_progress = None, seg_intensity = None\<rparr>"

definition bell_seg :: "real \<Rightarrow> real \<Rightarrow> contraction \<Rightarrow> segment" where
  "bell_seg x0 w c =
     \<lparr>seg_type = Bell, seg_x = x0, seg_widthPx = w, seg_label = None, seg_c = Some c,
      seg_active = False, seg_progress = None, seg_intensity = None\<rparr>"

definition active_seg :: "real \<Rightarrow> real \<Rightarrow> real \<Rightarrow> segment" where
  "active_seg x0 w i =
     \<lparr>seg_type = Bell, seg_x = x0, seg_widthPx = w, seg_label = None, seg_c = None,
      seg_active = True, seg_progress = Some 1, seg_intensity = Some i\<rparr>"

text \<open>
  The body of \<open>contractions.forEach((c, i) => ...)\<close>, on the pair of the array
  \<open>segments\<close> and the variable \<open>cursor\<close>. The read \<open>contractions[i - 1]\<close> happens
  only for \<open>0 < i < length\<close>.
\<close>

fun forEach_body ::
  "contraction list \<Rightarrow> segment list \<times> real \<Rightarrow> contraction \<times> nat \<Rightarrow> segment list \<times> real"
where
  "forEach_body cs (segs, cursor) (c, i) =
     (let (segs1, cursor1) =
            (if i > 0 then
               (let restMs = c_start c - c_end (cs ! (i - 1));
                    restPx = max MIN_REST_PX (secPx restMs)
                in (segs @ [flat_seg cursor restPx (Some (formatDuration restMs))],
                    cursor + restPx))
             else (segs, cursor));
          bellPx = max 8 (secPx (c_duration c))
      in (segs1 @ [bell_seg cursor1 bellPx c], cursor1 + bellPx))"

text \<open>The \<open>if (activeStart) { ... }\<close> block after the loop.\<close>

definition active_block :: "session \<Rightarrow> segment list \<times> real \<Rightarrow> segment list \<times> real" where
  "active_block s st =
     (case truthy_ts (activeStart s) of
        None \<Rightarrow> st
      | Some a \<Rightarrow>
          (let (segs, cursor) = st;
               elapsedMs = now s - a;
               (segs1, cursor1) =
                 (if length (contractions s) > 0 then
                    (let restMs = a - c_end (contractions s ! (length (contractions s) - 1));
                         restPx = max MIN_REST_PX (secPx restMs)
                     in (segs @ [flat_seg cursor restPx None], cursor + restPx))
                  else (segs, cursor));
               activePx = max 8 (secPx elapsedMs)
           in (segs1 @ [active_seg cursor1 activePx (real_of_int (intensity s) / 10)],
               cursor1 + activePx)))"

text \<open>
  The whole block "build chart segments": the final array \<open>segments\<close> and the final
  \<open>cursor\<close>, which the source names \<open>svgWidth\<close>.
\<close>

definition build_chart :: "session \<Rightarrow> segment list \<times> real" where
  "build_chart s =
     (let cs = contractions s;
          cursor0 = Y_AXIS_W + 8;
          st0 = ([flat_seg (cursor0 - LEAD_PX) LEAD_PX None], cursor0);
          st1 = foldl (forEach_body cs) st0 (zip cs [0 ..< length cs]);
          (segs2, cursor2) = active_block s st1
      in (segs2 @ [flat_seg cursor2 LEAD_PX None], cursor2 + LEAD_PX))"

definition segments :: "session \<Rightarrow> segment list" where
  "segments s = fst (build_chart s)"

definition svgWidth :: "session \<Rightarrow> real" where
  "svgWidth s = snd (build_chart s)"

subsection \<open>Rounding to double precision\<close>

text \<open>
  A JavaScript number is an IEEE 754 binary64 value, and \<open>+\<close>, \<open>-\<close>, \<open>*\<close> and
  \<open>/\<close> return the exact result rounded to the nearest such value, a tie to the one
  with an even significand. \<open>dbl\<close> is that rounding on the reals, for the normal
  range of exponents (no overflow, no subnormal numbers: the pixel values here are far
  from both): \<open>ilog2 n\<close> is the position of the leading bit of \<open>n \<ge> 1\<close>, \<open>expo a\<close>
  the binary exponent of \<open>a > 0\<close>, \<open>pow2 k\<close> is \<open>2\<^sup>k\<close>, and \<open>rne\<close> rounds to the
  nearest integer, a tie to the even one.
\<close>

function ilog2 :: "int \<Rightarrow> int" where
  "ilog2 n = (if n \<le> 1 then 0 else 1 + ilog2 (n div 2))"
  by pat_completeness auto
termination
  by (relation "measure nat") auto

declare ilog2.simps [simp del]

definition pow2 :: "int \<Rightarrow> real" where
  "pow2 k = (if 0 \<le> k then 2 ^ nat k else 1 / 2 ^ nat (- k))"

definition expo :: "real \<Rightarrow> int" where
  "expo a =
     (if 1 \<le> a then ilog2 \<lfloor>a\<rfloor>
      else (let c = ilog2 \<lfloor>1 / a\<rfloor> in if a * pow2 c = 1 then - c else - c - 1))"

definition rne :: "real \<Rightarrow> int" where
  "rne m =
     (let f = \<lfloor>m\<rfloor>; r = m - of_int f
      in if r < 1 / 2 then f
         else if 1 / 2 < r then f + 1
         else if even f then f else f + 1)"

definition dbl :: "real \<Rightarrow> real" where
  "dbl v =
     (if v = 0 then 0
      else (let a = \<bar>v\<bar>; u = pow2 (expo a - 52)
            in sgn v * (of_int (rne (a / u)) * u)))"

subsection \<open>Chart segments, with rounded arithmetic\<close>

text \<open>
  The same block "build chart segments" once more, with the rounding \<open>rnd\<close> applied
  to the result of every arithmetic operation on numbers that need not be integers.
  With \<open>rnd = dbl\<close> this is the arithmetic of the code; with the identity it is the
  exact model above. \<open>Math.max\<close> and the subtraction of integer timestamps are exact.
\<close>

definition secPx_fl :: "(real \<Rightarrow> real) \<Rightarrow> int \<Rightarrow> real" where
  "secPx_fl rnd ms = rnd (rnd (real_of_int ms / 1000) * PX_PER_SEC)"

fun forEach_body_fl ::
  "(real \<Rightarrow> real) \<Rightarrow> contraction list \<Rightarrow> segment list \<times> real \<Rightarrow> contraction \<times> nat \<Rightarrow>
   segment list \<times> real"
where
  "forEach_body_fl rnd cs (segs, cursor) (c, i) =
     (let (segs1, cursor1) =
            (if i > 0 then
               (let restMs = c_start c - c_end (cs ! (i - 1));
                    restPx = max MIN_REST_PX (secPx_fl rnd restMs)
                in (segs @ [flat_seg cursor restPx (Some (formatDuration restMs))],
                    rnd (cursor + restPx)))
             else (segs, cursor));
          bellPx = max 8 (secPx_fl rnd (c_duration c))
      in (segs1 @ [bell_seg cursor1 bellPx c], rnd (cursor1 + bellPx)))"

definition active_block_fl ::
  "(real \<Rightarrow> real) \<Rightarrow> session \<Rightarrow> segment list \<times> real \<Rightarrow> segment list \<times> real"
where
  "active_block_fl rnd s st =
     (case truthy_ts (activeStart s) of
        None \<Rightarrow> st
      | Some a \<Rightarrow>
          (let (segs, cursor) = st;
               elapsedMs = now s - a;
               (segs1, cursor1) =
                 (if length (contractions s) > 0 then
                    (let restMs = a - c_end (contractions s ! (length (contractions s) - 1));
                         restPx = max MIN_REST_PX (secPx_fl rnd restMs)
                     in (segs @ [flat_seg cursor restPx None], rnd (cursor + restPx)))
                  else (segs, cursor));
               activePx = max 8 (secPx_fl rnd elapsedMs)
           in (segs1 @ [active_seg cursor1 activePx (rnd (real_of_int (intensity s) / 10))],
               rnd (cursor1 + activePx))))"

definition build_chart_fl :: "(real \<Rightarrow> real) \<Rightarrow> session \<Rightarrow> segment list \<times> real" where
  "build_chart_fl rnd s =
     (let cs = contractions s;
          cursor0 = rnd (Y_AXIS_W + 8);
          st0 = ([flat_seg (rnd (cursor0 - LEAD_PX)) LEAD_PX None], cursor0);
          st1 = foldl (forEach_body_fl rnd cs) st0 (zip cs [0 ..< length cs]);
          (segs2, cursor2) = active_block_fl rnd s st1
      in (segs2 @ [flat_seg cursor2 LEAD_PX None], rnd (cursor2 + LEAD_PX)))"

definition segments_fl :: "(real \<Rightarrow> real) \<Rightarrow> session \<Rightarrow> segment list" where
  "segments_fl rnd s = fst (build_chart_fl rnd s)"

definition svgWidth_fl :: "(real \<Rightarrow> real) \<Rightarrow> session \<Rightarrow> real" where
  "svgWidth_fl rnd s = snd (build_chart_fl rnd s)"

subsection \<open>The initial state, and the commands of the user interface\<close>

text \<open>
  The \<open>useState\<close> initialisers: the loaded history, no contraction in progress,
  live scrolling on, intensity 5, \<open>now = Date.now()\<close>, container not yet measured.
\<close>

definition initial_session :: "contraction list \<Rightarrow> int \<Rightarrow> session" where
  "initial_session loaded date_now =
     \<lparr>contractions = loaded, activeStart = None, liveScroll = True, intensity = 5,
      now = date_now, containerWidth = 0\<rparr>"

text \<open>
  What the interface can do to the state: the big button (\<open>toggleContraction\<close>, with
  the wall clock it would read), the clear button, the intensity slider
  (\<open>setIntensity(+e.target.value)\<close>), the 100 ms timer (\<open>setNow(Date.now())\<close>), the
  live-scroll switch and the resize observer.
\<close>

datatype command =
    Toggle int
  | Clear
  | SetIntensity int
  | Tick int
  | SetLiveScroll bool
  | SetContainerWidth real

fun exec :: "session \<Rightarrow> command \<Rightarrow> session" where
  "exec s (Toggle date_now) = toggleContraction date_now s"
| "exec s Clear = clearSession s"
| "exec s (SetIntensity v) = s\<lparr>intensity := v\<rparr>"
| "exec s (Tick date_now) = s\<lparr>now := date_now\<rparr>"
| "exec s (SetLiveScroll b) = s\<lparr>liveScroll := b\<rparr>"
| "exec s (SetContainerWidth w) = s\<lparr>containerWidth := w\<rparr>"

text \<open>
  The slider is \<open><input type="range" min={1} max={10}>\<close>: the values it reports are
  the integers from 1 to 10. Every other command is unconstrained.
\<close>

fun from_ui :: "command \<Rightarrow> bool" where
  "from_ui (SetIntensity v) = (1 \<le> v \<and> v \<le> 10)"
| "from_ui _ = True"

subsection \<open>The bell curve\<close>

definition gauss :: "real \<Rightarrow> real" where
  "gauss x =
     (let sigma = 0.15;
          raw = exp (- ((x - 0.5) ^ 2) / (2 * sigma ^ 2));
          floor_g = exp (- (0.5 ^ 2) / (2 * sigma ^ 2))
      in max 0 ((raw - floor_g) / (1 - floor_g)))"

subsection \<open>The 5-1-1 rule\<close>

definition FIVE_MIN_MS :: int where "FIVE_MIN_MS = 5 * 60 * 1000"
definition ONE_MIN_MS :: int where "ONE_MIN_MS = 60 * 1000"
definition ONE_HOUR_MS :: int where "ONE_HOUR_MS = 60 * 60 * 1000"

text \<open>
  The loop \<open>for (let i = contractions.length - 2; i >= 0; i--)\<close> with its
  \<open>break\<close>, on the variable \<open>streakBegin\<close>. The index \<open>i\<close> is an \<open>int\<close>: it
  starts at \<open>-1\<close> for a history of one entry and ends at \<open>-1\<close> when the loop runs
  through. The reads \<open>contractions[i + 1]\<close> and \<open>contractions[i]\<close> happen only for
  \<open>0 \<le> i \<le> length - 2\<close>.
\<close>

function streak_loop :: "contraction list \<Rightarrow> int \<Rightarrow> nat \<Rightarrow> nat" where
  "streak_loop cs i streakBegin =
     (if i \<ge> 0 then
        (let interval = c_start (cs ! nat (i + 1)) - c_start (cs ! nat i);
             dur = c_duration (cs ! nat i)
         in if dur \<ge> ONE_MIN_MS \<and> interval \<le> FIVE_MIN_MS
            then streak_loop cs (i - 1) (nat i)
            else streakBegin)
      else streakBegin)"
  by pat_completeness auto
termination
  by (relation "measure (\<lambda>(cs, i, streakBegin). nat (i + 1))") auto

declare streak_loop.simps [simp del]

definition qualifyingStreakStart :: "contraction list \<Rightarrow> int option" where
  "qualifyingStreakStart cs =
     (if length cs \<ge> 1 then
        (let streakBegin = length cs - 1
         in if c_duration (cs ! streakBegin) \<ge> ONE_MIN_MS
            then Some (c_start (cs ! streak_loop cs (int (length cs) - 2) streakBegin))
            else None)
      else None)"

text \<open>\<open>qualifyingStreakStart !== null ? now - qualifyingStreakStart : 0\<close>\<close>

definition streakDuration :: "session \<Rightarrow> int" where
  "streakDuration s =
     (case qualifyingStreakStart (contractions s) of
        Some q \<Rightarrow> now s - q
      | None \<Rightarrow> 0)"

definition rule511Met :: "session \<Rightarrow> bool" where
  "rule511Met s = (streakDuration s \<ge> ONE_HOUR_MS)"

text \<open>
  The frequency and duration tiles. \<open>slice(1).map((c, i) => ...)\<close> pairs each entry
  after the first with its index in the slice; \<open>reduce\<close> is a left fold from 0; a
  length is truthy when it is not 0.
\<close>

definition allIntervals :: "contraction list \<Rightarrow> int list" where
  "allIntervals cs =
     (if length cs \<ge> 2
      then map (\<lambda>(c, i). c_start c - c_start (cs ! i))
             (zip (drop 1 cs) [0 ..< length (drop 1 cs)])
      else [])"

definition avgRecentInterval :: "contraction list \<Rightarrow> real option" where
  "avgRecentInterval cs =
     (if length (allIntervals cs) \<noteq> 0
      then Some (real_of_int (foldl (\<lambda>a b. a + b) 0 (allIntervals cs)) /
                 real (length (allIntervals cs)))
      else None)"

definition avgRecentDuration :: "contraction list \<Rightarrow> real option" where
  "avgRecentDuration cs =
     (if length cs \<noteq> 0
      then Some (real_of_int (foldl (\<lambda>a b. a + c_duration b) 0 cs) / real (length cs))
      else None)"

subsection \<open>Panning in live mode\<close>

definition panX :: "session \<Rightarrow> real" where
  "panX s =
     (let effectiveContainerWidth =
            (if containerWidth s > 0 then containerWidth s else svgWidth s)
      in if liveScroll s
         then max (- (svgWidth s - Y_AXIS_W)) (min 0 (effectiveContainerWidth - svgWidth s))
         else 0)"

subsection \<open>Loading the stored session\<close>

text \<open>
  The values \<open>JSON.parse\<close> can return, and their truthiness: \<open>null\<close>, \<open>false\<close>,
  \<open>0\<close> and the empty string are falsy, every array and object is truthy.
\<close>

datatype json =
    JNull
  | JBool bool
  | JNumber real
  | JString string
  | JArray "json list"
  | JObject "(string \<times> json) list"

fun js_truthy :: "json \<Rightarrow> bool" where
  "js_truthy JNull = False"
| "js_truthy (JBool b) = b"
| "js_truthy (JNumber n) = (n \<noteq> 0)"
| "js_truthy (JString t) = (t \<noteq> [])"
| "js_truthy (JArray _) = True"
| "js_truthy (JObject _) = True"

text \<open>
  What \<open>localStorage.getItem(STORAGE_KEY)\<close> does: it throws (storage not
  accessible), returns \<open>null\<close> (no such key) or returns the stored string.
\<close>

datatype storage_read = ReadThrows | Absent | Stored string

text \<open>
  The initialiser of \<open>contractions\<close>:
  \<open>try { return JSON.parse(localStorage.getItem(STORAGE_KEY)) || []; } catch { return []; }\<close>.
  \<open>JSON.parse\<close> is the language's own function and is a parameter here: \<open>parse t\<close>
  is \<open>None\<close> when it throws on the text \<open>t\<close>. It converts its argument to a string
  first, so \<open>null\<close> is parsed as the text \<open>null\<close>.
\<close>

definition load_contractions :: "(string \<Rightarrow> json option) \<Rightarrow> storage_read \<Rightarrow> json" where
  "load_contractions parse r =
     (case r of
        ReadThrows \<Rightarrow> JArray []
      | Absent \<Rightarrow>
          (case parse ''null'' of
             None \<Rightarrow> JArray []
           | Some v \<Rightarrow> if js_truthy v then v else JArray [])
      | Stored t \<Rightarrow>
          (case parse t of
             None \<Rightarrow> JArray []
           | Some v \<Rightarrow> if js_truthy v then v else JArray []))"

subsection \<open>Notions of the specification\<close>

text \<open>
  The widths \<open>ws\<close> added to \<open>x0\<close> one after the other, from left to right, each sum
  rounded; and the cursor of the builder as the widths emitted so far added to 28, the
  left edge of the leading gap.
\<close>

definition add_widths :: "(real \<Rightarrow> real) \<Rightarrow> real \<Rightarrow> real list \<Rightarrow> real" where
  "add_widths rnd x0 ws = foldl (\<lambda>a w. rnd (a + w)) x0 ws"

definition fold_inv :: "(real \<Rightarrow> real) \<Rightarrow> segment list \<times> real \<Rightarrow> bool" where
  "fold_inv rnd st = (snd st = add_widths rnd 28 (map seg_widthPx (fst st)))"

text \<open>The minimum widths: \<open>MIN_REST_PX\<close> for a flat segment, 8 for a bell.\<close>

definition seg_ok :: "segment \<Rightarrow> bool" where
  "seg_ok g =
     (case seg_type g of
        Flat \<Rightarrow> MIN_REST_PX \<le> seg_widthPx g
      | Bell \<Rightarrow> 8 \<le> seg_widthPx g)"

definition mid_inv :: "segment list \<times> real \<Rightarrow> bool" where
  "mid_inv st =
     (case fst st of
        [] \<Rightarrow> False
      | g # mid \<Rightarrow> g = flat_seg 28 24 None \<and> list_all seg_ok mid)"

text \<open>
  Step \<open>j\<close> of the backward walk includes entry \<open>j\<close>: it lasts at least one
  minute and its successor starts at most five minutes after it.
\<close>

definition included :: "contraction list \<Rightarrow> nat \<Rightarrow> bool" where
  "included cs j =
     (c_duration (cs ! j) \<ge> 60000 \<and> c_start (cs ! Suc j) - c_start (cs ! j) \<le> 300000)"

text \<open>
  The amplitude curve in the specification's words:
  \<open>shape(t) = max(0, (g(t) - g(0)) / (g(0.5) - g(0)))\<close> with
  \<open>g(t) = exp(-(t - 0.5)\<^sup>2 / (2 \<sigma>\<^sup>2))\<close> and \<open>\<sigma> = 0.15\<close>.
\<close>

definition g_spec :: "real \<Rightarrow> real" where
  "g_spec t = exp (- ((t - 1 / 2) ^ 2) / (2 * 0.15 ^ 2))"

definition shape_spec :: "real \<Rightarrow> real" where
  "shape_spec t = max 0 ((g_spec t - g_spec 0) / (g_spec (1 / 2) - g_spec 0))"

text \<open>\<open>clamp(v, lo, hi)\<close> of the specification's pan formula.\<close>

definition clamp :: "real \<Rightarrow> real \<Rightarrow> real \<Rightarrow> real" where
  "clamp v lo hi = (if v < lo then lo else if hi < v then hi else v)"

text \<open>A run of the interface: the commands applied from left to right.\<close>

definition run :: "session \<Rightarrow> command list \<Rightarrow> session" where
  "run s cmds = foldl exec s cmds"

text \<open>
  The intensity setting is between 1 and 10, and every entry of the history either
  was loaded or carries an intensity between 0.1 and 1.
\<close>

definition tenth :: "real \<Rightarrow> bool" where
  "tenth v = (1 / 10 \<le> v \<and> v \<le> 1)"

definition intensity_inv :: "contraction list \<Rightarrow> session \<Rightarrow> bool" where
  "intensity_inv loaded s =
     (1 \<le> intensity s \<and> intensity s \<le> 10 \<and>
      list_all (\<lambda>e. e \<in> set loaded \<or> tenth (c_intensity e)) (contractions s))"

section \<open>The segment builder\<close>

subsection \<open>The rounding\<close>

lemma ilog2_nonneg: "0 \<le> ilog2 n"
  by (induction n rule: ilog2.induct) (subst ilog2.simps, simp)

lemma ilog2_bracket:
  "1 \<le> n \<Longrightarrow> 2 ^ nat (ilog2 n) \<le> n \<and> n < 2 * 2 ^ nat (ilog2 n)"
proof (induction n rule: ilog2.induct)
  case (1 n)
  show ?case
  proof (cases "n \<le> 1")
    case True
    with 1(2) have "n = 1" by simp
    then show ?thesis by (simp add: ilog2.simps)
  next
    case False
    then have h: "1 \<le> n div 2" by simp
    let ?k = "nat (ilog2 (n div 2))"
    from 1(1)[OF False h] have lo: "2 ^ ?k \<le> n div 2" and hi: "n div 2 < 2 * 2 ^ ?k"
      by simp_all
    have e: "nat (ilog2 n) = Suc ?k"
      using False ilog2_nonneg[of "n div 2"] by (subst ilog2.simps) (simp add: nat_add_distrib)
    have "2 * (n div 2) \<le> n" and "n < 2 * (n div 2) + 2"
      by simp_all
    with lo hi show ?thesis
      unfolding e by simp
  qed
qed

lemma pow2_Suc: "pow2 (k + 1) = 2 * pow2 k"
proof -
  consider "0 \<le> k" | "k = - 1" | "k < - 1" by linarith
  then show ?thesis
  proof cases
    case 1
    then show ?thesis by (simp add: pow2_def nat_add_distrib)
  next
    case 2
    then show ?thesis by (simp add: pow2_def)
  next
    case 3
    then have "nat (- k) = Suc (nat (- (k + 1)))" by simp
    with 3 show ?thesis by (simp add: pow2_def)
  qed
qed

lemma pow2_pos: "0 < pow2 k"
  by (simp add: pow2_def)

lemma pow2_neg: "0 \<le> c \<Longrightarrow> pow2 (- c) = 1 / pow2 c"
  by (cases "c = 0") (simp_all add: pow2_def)

text \<open>\<open>expo a\<close> is the binary exponent of a positive number.\<close>

lemma expo_bracket:
  assumes "0 < a"
  shows "pow2 (expo a) \<le> a \<and> a < pow2 (expo a + 1)"
proof (cases "1 \<le> a")
  case True
  then have n: "1 \<le> \<lfloor>a\<rfloor>" by simp
  let ?k = "nat (ilog2 \<lfloor>a\<rfloor>)"
  from ilog2_bracket[OF n] have lo: "2 ^ ?k \<le> \<lfloor>a\<rfloor>" and hi: "\<lfloor>a\<rfloor> + 1 \<le> 2 * 2 ^ ?k"
    by simp_all
  have "real_of_int (2 ^ ?k) \<le> a"
    using lo by (meson le_floor_iff)
  moreover have "a < real_of_int (2 * 2 ^ ?k)"
    using hi by (meson floor_less_iff less_le_trans add1_zle_eq)
  ultimately show ?thesis
    using True ilog2_nonneg[of "\<lfloor>a\<rfloor>"] by (simp add: expo_def pow2_Suc) (simp add: pow2_def)
next
  case False
  with assms have i: "1 < 1 / a" by simp
  then have n: "1 \<le> \<lfloor>1 / a\<rfloor>" by simp
  let ?c = "ilog2 \<lfloor>1 / a\<rfloor>"
  let ?k = "nat ?c"
  have c0: "0 \<le> ?c" by (rule ilog2_nonneg)
  then have p: "pow2 ?c = 2 ^ ?k" by (simp add: pow2_def)
  from ilog2_bracket[OF n] have lo: "2 ^ ?k \<le> \<lfloor>1 / a\<rfloor>" and hi: "\<lfloor>1 / a\<rfloor> + 1 \<le> 2 * 2 ^ ?k"
    by simp_all
  have "real_of_int (2 ^ ?k) \<le> 1 / a"
    using lo by (meson le_floor_iff)
  then have up: "a * pow2 ?c \<le> 1"
    using assms by (simp add: p field_simps)
  have "1 / a < real_of_int (2 * 2 ^ ?k)"
    using hi by (meson floor_less_iff less_le_trans add1_zle_eq)
  then have dn: "1 < a * (2 * pow2 ?c)"
    using assms by (simp add: p field_simps)
  show ?thesis
  proof (cases "a * pow2 ?c = 1")
    case True
    then have "a = 1 / pow2 ?c"
      using pow2_pos[of ?c] by (simp add: field_simps)
    moreover have "expo a = - ?c"
      using False True by (simp add: expo_def Let_def)
    ultimately show ?thesis
      unfolding pow2_Suc using assms c0 pow2_pos[of ?c] by (simp add: pow2_neg)
  next
    case ne: False
    with up have lt: "a * pow2 ?c < 1" by simp
    have e: "expo a = - (?c + 1)"
      using False ne by (simp add: expo_def Let_def)
    have e1: "expo a + 1 = - ?c"
      using e by simp
    have "pow2 (- (?c + 1)) = 1 / pow2 (?c + 1)"
      using c0 by (intro pow2_neg) simp
    then have p1: "pow2 (expo a) = 1 / (2 * pow2 ?c)"
      by (simp only: e pow2_Suc)
    have p2: "pow2 (expo a + 1) = 1 / pow2 ?c"
      using c0 by (simp only: e1 pow2_neg)
    have "1 / (2 * pow2 ?c) < a"
      using dn pow2_pos[of ?c] by (simp add: field_simps)
    moreover have "a < 1 / pow2 ?c"
      using lt pow2_pos[of ?c] by (simp add: field_simps)
    ultimately show ?thesis
      unfolding p1 p2 by simp
  qed
qed

lemma rne_close: "\<bar>real_of_int (rne m) - m\<bar> \<le> 1 / 2"
  by (auto simp add: rne_def Let_def abs_if) linarith+

text \<open>
  \<open>dbl v\<close> is a multiple of the unit in the last place of \<open>v\<close> (53 significant
  bits) and lies within half a unit of \<open>v\<close>.
\<close>

lemma dbl_close:
  "v \<noteq> 0 \<Longrightarrow> \<bar>dbl v - v\<bar> \<le> pow2 (expo \<bar>v\<bar> - 52) / 2"
proof -
  assume v: "v \<noteq> 0"
  let ?u = "pow2 (expo \<bar>v\<bar> - 52)"
  have u: "0 < ?u" by (rule pow2_pos)
  have "\<bar>dbl v - v\<bar> = \<bar>real_of_int (rne (\<bar>v\<bar> / ?u)) * ?u - \<bar>v\<bar>\<bar>"
  proof (cases "0 < v")
    case True
    then show ?thesis by (simp add: dbl_def Let_def)
  next
    case False
    with v have n: "v < 0" by simp
    then have "dbl v - v = - (real_of_int (rne (\<bar>v\<bar> / ?u)) * ?u - \<bar>v\<bar>)"
      by (simp add: dbl_def Let_def)
    then show ?thesis by (simp only: abs_minus_cancel)
  qed
  also have "\<dots> = \<bar>(real_of_int (rne (\<bar>v\<bar> / ?u)) - \<bar>v\<bar> / ?u) * ?u\<bar>"
    using u by (simp add: left_diff_distrib)
  also have "\<dots> = \<bar>real_of_int (rne (\<bar>v\<bar> / ?u)) - \<bar>v\<bar> / ?u\<bar> * ?u"
    using u by (simp only: abs_mult abs_of_pos)
  also have "\<dots> \<le> 1 / 2 * ?u"
    using u rne_close[of "\<bar>v\<bar> / ?u"] by (intro mult_right_mono) simp_all
  finally show ?thesis by simp
qed

lemma pow2_powr: "pow2 k = 2 powr (real_of_int k)"
proof (cases "0 \<le> k")
  case True
  then have "real_of_int k = real (nat k)" by simp
  then show ?thesis
    using True by (simp only: pow2_def if_True powr_realpow[of 2 "nat k", simplified])
next
  case False
  then have "real_of_int k = - real (nat (- k))" by simp
  then show ?thesis
    using False
    by (simp only: pow2_def if_False powr_minus powr_realpow[of 2 "nat (- k)", simplified]
          inverse_eq_divide)
qed

lemma pow2_shift: "pow2 e = 2 ^ 52 * pow2 (e - 52)"
proof -
  have "pow2 e = 2 powr (52 + real_of_int (e - 52))"
    by (simp add: pow2_powr)
  also have "\<dots> = 2 powr 52 * 2 powr (real_of_int (e - 52))"
    by (simp only: powr_add)
  finally show ?thesis
    by (simp add: pow2_powr)
qed

lemma rne_bounds: "\<lfloor>m\<rfloor> \<le> rne m \<and> rne m \<le> \<lfloor>m\<rfloor> + 1"
  by (simp add: rne_def Let_def)

text \<open>
  The significand of \<open>dbl v\<close> is an integer of 53 bits (or the next power of two,
  when the rounding carries).
\<close>

lemma dbl_significand:
  assumes "v \<noteq> 0"
  shows "\<bar>dbl v\<bar> = real_of_int (rne (\<bar>v\<bar> / pow2 (expo \<bar>v\<bar> - 52))) * pow2 (expo \<bar>v\<bar> - 52) \<and>
         2 ^ 52 \<le> rne (\<bar>v\<bar> / pow2 (expo \<bar>v\<bar> - 52)) \<and>
         rne (\<bar>v\<bar> / pow2 (expo \<bar>v\<bar> - 52)) \<le> 2 ^ 53"
proof -
  let ?u = "pow2 (expo \<bar>v\<bar> - 52)"
  let ?m = "\<bar>v\<bar> / ?u"
  have u: "0 < ?u" by (rule pow2_pos)
  from assms have a: "0 < \<bar>v\<bar>" by simp
  from expo_bracket[OF a] have "2 ^ 52 * ?u \<le> \<bar>v\<bar>" and "\<bar>v\<bar> < 2 * (2 ^ 52 * ?u)"
    unfolding pow2_Suc by (simp_all only: pow2_shift[of "expo \<bar>v\<bar>", symmetric])
  then have lo: "2 ^ 52 \<le> ?m" and hi: "?m < 2 ^ 53"
    using u by (simp_all add: field_simps)
  from lo have "(2 ^ 52 :: int) \<le> \<lfloor>?m\<rfloor>"
    by (simp add: le_floor_iff)
  moreover from hi have "\<lfloor>?m\<rfloor> + 1 \<le> (2 ^ 53 :: int)"
    by (simp add: floor_less_iff add1_zle_eq[symmetric] del: add1_zle_eq)
  ultimately have r: "2 ^ 52 \<le> rne ?m" "rne ?m \<le> 2 ^ 53"
    using rne_bounds[of ?m] by linarith+
  then have "0 \<le> real_of_int (rne ?m)"
    by simp
  then have "\<bar>dbl v\<bar> = real_of_int (rne ?m) * ?u"
    using assms u by (simp add: dbl_def Let_def abs_mult abs_sgn_eq)
  with r show ?thesis by simp
qed

lemma dbl_28: "dbl 28 = 28"
  by code_simp

lemma dbl_52: "dbl 52 = 52"
  by code_simp

lemma dbl_76: "dbl 76 = 76"
  by code_simp

subsection \<open>The two models of the builder\<close>

lemma secPx_fl_exact: "secPx_fl (\<lambda>v. v) = secPx"
  by (intro ext) (simp add: secPx_fl_def secPx_def)

lemma forEach_body_fl_exact: "forEach_body_fl (\<lambda>v. v) cs st ci = forEach_body cs st ci"
  by (cases st; cases ci) (simp add: secPx_fl_exact)

lemma active_block_fl_exact: "active_block_fl (\<lambda>v. v) s st = active_block s st"
  unfolding active_block_fl_def active_block_def secPx_fl_exact by (rule refl)

lemma build_chart_fl_exact: "build_chart_fl (\<lambda>v. v) s = build_chart s"
proof -
  have "forEach_body_fl (\<lambda>v. v) (contractions s) = forEach_body (contractions s)"
    by (intro ext) (rule forEach_body_fl_exact)
  then show ?thesis
    by (simp add: build_chart_fl_def build_chart_def active_block_fl_exact)
qed

lemma forEach_body_fold: "fold_inv rnd st \<Longrightarrow> fold_inv rnd (forEach_body_fl rnd cs st ci)"
  by (cases st; cases ci)
     (simp add: fold_inv_def add_widths_def Let_def flat_seg_def bell_seg_def)

lemma foldl_forEach_fold:
  "fold_inv rnd st \<Longrightarrow> fold_inv rnd (foldl (forEach_body_fl rnd cs) st ps)"
  by (induction ps arbitrary: st) (simp_all add: forEach_body_fold)

lemma active_block_fold: "fold_inv rnd st \<Longrightarrow> fold_inv rnd (active_block_fl rnd s st)"
  by (cases st)
     (simp add: active_block_fl_def fold_inv_def add_widths_def Let_def flat_seg_def
           active_seg_def split: option.splits)

lemma loop_fold:
  "fold_inv rnd (active_block_fl rnd s (foldl (forEach_body_fl rnd cs)
      ([flat_seg (rnd (rnd (Y_AXIS_W + 8) - LEAD_PX)) LEAD_PX None], rnd (Y_AXIS_W + 8)) ps))"
  by (rule active_block_fold, rule foldl_forEach_fold)
     (simp add: fold_inv_def add_widths_def flat_seg_def Y_AXIS_W_def LEAD_PX_def)

text \<open>
  C1, as the code has it. The cursor starts at \<open>Y_AXIS_W + 8 = 52\<close> and the leading
  gap of width 24 is laid out to its left, from 28 to 52, without advancing the cursor.
  So \<open>svgWidth\<close> is not the sum of the widths: it is 28 with the widths of all
  segments added one after the other, in the order of the list, each addition rounded
  as the arithmetic in use rounds it (\<open>dbl\<close> in the code).
\<close>

theorem segments_width_fold:
  "svgWidth_fl rnd s = add_widths rnd 28 (map seg_widthPx (segments_fl rnd s))"
  using loop_fold[of rnd s "contractions s"
      "zip (contractions s) [0 ..< length (contractions s)]"]
  by (auto simp add: segments_fl_def svgWidth_fl_def build_chart_fl_def Let_def fold_inv_def
        add_widths_def flat_seg_def LEAD_PX_def split: prod.splits)

text \<open>
  On the session with no contraction the widths do not add up to \<open>svgWidth\<close>: the two
  fixed gaps have total width 48, and \<open>svgWidth\<close> is 76.
\<close>

theorem segments_width_sum_counterexample:
  "sum_list (map seg_widthPx (segments_fl dbl (initial_session [] 0))) \<noteq>
   svgWidth_fl dbl (initial_session [] 0)"
  by (simp add: segments_fl_def svgWidth_fl_def build_chart_fl_def initial_session_def
        active_block_fl_def truthy_ts_def flat_seg_def Y_AXIS_W_def LEAD_PX_def
        dbl_52 dbl_28 dbl_76)

text \<open>
  One stored contraction of 2001 ms, in double precision: the bell is
  \<open>8.004\<close> wide (the double nearest to it) and \<open>svgWidth\<close> is the double
  \<open>84.00399999999999\<close>, which is not 28 plus the exact sum of the three widths.
\<close>

lemma segments_fl_rounding_example:
  "map seg_widthPx (segments_fl dbl (initial_session
      [\<lparr>c_id = 5000, c_start = 5000, c_end = 7001, c_duration = 2001, c_intensity = 1 / 2\<rparr>] 0))
     = [24, 4505851427184181 / 562949953421312, 24] \<and>
   svgWidth_fl dbl (initial_session
      [\<lparr>c_id = 5000, c_start = 5000, c_end = 7001, c_duration = 2001, c_intensity = 1 / 2\<rparr>] 0)
     = 2955627992950243 / 35184372088832"
  by code_simp

lemma segments_fl_rounding_gap:
  "28 + sum_list (map seg_widthPx (segments_fl dbl (initial_session
      [\<lparr>c_id = 5000, c_start = 5000, c_end = 7001, c_duration = 2001, c_intensity = 1 / 2\<rparr>] 0)))
     \<noteq> svgWidth_fl dbl (initial_session
      [\<lparr>c_id = 5000, c_start = 5000, c_end = 7001, c_duration = 2001, c_intensity = 1 / 2\<rparr>] 0)"
  using segments_fl_rounding_example by simp

theorem segments_width_fold_witness:
  "svgWidth_fl dbl (initial_session
      [\<lparr>c_id = 5000, c_start = 5000, c_end = 7001, c_duration = 2001, c_intensity = 1 / 2\<rparr>] 0)
     = add_widths dbl 28 [24, 4505851427184181 / 562949953421312, 24]"
  using segments_width_fold[of dbl "initial_session
      [\<lparr>c_id = 5000, c_start = 5000, c_end = 7001, c_duration = 2001, c_intensity = 1 / 2\<rparr>] 0"]
  by (simp only: segments_fl_rounding_example)

subsection \<open>Minimum widths\<close>

lemma forEach_body_mid: "mid_inv st \<Longrightarrow> mid_inv (forEach_body cs st ci)"
  by (cases st; cases ci)
     (auto simp add: mid_inv_def Let_def seg_ok_def flat_seg_def bell_seg_def
           split: list.splits)

lemma foldl_forEach_mid:
  "mid_inv st \<Longrightarrow> mid_inv (foldl (forEach_body cs) st ps)"
  by (induction ps arbitrary: st) (simp_all add: forEach_body_mid)

lemma active_block_mid: "mid_inv st \<Longrightarrow> mid_inv (active_block s st)"
  by (cases st)
     (auto simp add: active_block_def mid_inv_def Let_def seg_ok_def flat_seg_def
           active_seg_def split: option.splits list.splits)

lemma loop_mid:
  "mid_inv (active_block s (foldl (forEach_body cs)
      ([flat_seg (Y_AXIS_W + 8 - LEAD_PX) LEAD_PX None], Y_AXIS_W + 8) ps))"
  by (rule active_block_mid, rule foldl_forEach_mid)
     (simp add: mid_inv_def flat_seg_def Y_AXIS_W_def LEAD_PX_def)

text \<open>
  C7, as the code has it. The segment list is the leading gap, the segments of the
  contractions and of the contraction in progress, and the trailing gap. Every flat
  segment in the middle is at least \<open>MIN_REST_PX = 32\<close> wide and every bell at least
  8, whatever the timestamps are; the leading and the trailing gap are flat segments of
  the fixed width \<open>LEAD_PX = 24\<close>.
\<close>

theorem segments_min_widths:
  "\<exists>mid. segments s = flat_seg 28 24 None # mid @ [flat_seg (svgWidth s - 24) 24 None] \<and>
         list_all seg_ok mid"
  using loop_mid[of s "contractions s" "zip (contractions s) [0 ..< length (contractions s)]"]
  by (auto simp add: segments_def svgWidth_def build_chart_def Let_def mid_inv_def LEAD_PX_def
        split: prod.splits list.splits)

text \<open>
  On the session with no contraction the first segment is a gap of width 24, below
  \<open>MIN_REST_PX\<close>: not every flat segment reaches the minimum width.
\<close>

theorem segments_min_widths_counterexample:
  "seg_type (hd (segments (initial_session [] 0))) = Flat \<and>
   seg_widthPx (hd (segments (initial_session [] 0))) < MIN_REST_PX \<and>
   \<not> list_all seg_ok (segments (initial_session [] 0))"
  by (simp add: segments_def build_chart_def initial_session_def seg_ok_def MIN_REST_PX_def
        active_block_def truthy_ts_def flat_seg_def Y_AXIS_W_def LEAD_PX_def)

theorem segments_min_widths_witness:
  "list_all seg_ok (butlast (tl (segments
     \<lparr>contractions =
        [\<lparr>c_id = 1000, c_start = 1000, c_end = 61000, c_duration = 60000, c_intensity = 1 / 2\<rparr>,
         \<lparr>c_id = 60000, c_start = 60000, c_end = 60500, c_duration = 500, c_intensity = 1 / 2\<rparr>],
      activeStart = Some 60400, liveScroll = True, intensity = 5, now = 60300,
      containerWidth = 0\<rparr>)))"
  using segments_min_widths[of
     "\<lparr>contractions =
        [\<lparr>c_id = 1000, c_start = 1000, c_end = 61000, c_duration = 60000, c_intensity = 1 / 2\<rparr>,
         \<lparr>c_id = 60000, c_start = 60000, c_end = 60500, c_duration = 500, c_intensity = 1 / 2\<rparr>],
      activeStart = Some 60400, liveScroll = True, intensity = 5, now = 60300,
      containerWidth = 0\<rparr>"]
  by auto

section \<open>Ending a contraction\<close>

text \<open>
  C4. Ending an in-progress contraction whose elapsed time \<open>now - activeStart\<close> is
  below 1000 ms leaves the history as it was and only resets \<open>activeStart\<close>; at
  exactly 1000 ms the history grows by exactly one entry, whose duration is 1000.
\<close>

theorem toggleContraction_end:
  assumes "activeStart s = Some a" and "a \<noteq> 0"
  shows "(now s - a < 1000 \<longrightarrow>
            contractions (toggleContraction d s) = contractions s \<and>
            activeStart (toggleContraction d s) = None) \<and>
         (now s - a = 1000 \<longrightarrow>
            (\<exists>e. contractions (toggleContraction d s) = contractions s @ [e] \<and>
                 c_duration e = 1000 \<and> c_start e = a \<and> c_end e = now s) \<and>
            length (contractions (toggleContraction d s)) = Suc (length (contractions s)) \<and>
            activeStart (toggleContraction d s) = None)"
  using assms by (simp add: toggleContraction_def truthy_ts_def Let_def)

theorem toggleContraction_end_witness:
  "contractions (toggleContraction 7000
      \<lparr>contractions = [], activeStart = Some 5000, liveScroll = True, intensity = 5,
       now = 5999, containerWidth = 0\<rparr>) = [] \<and>
   length (contractions (toggleContraction 7000
      \<lparr>contractions = [], activeStart = Some 5000, liveScroll = True, intensity = 5,
       now = 6000, containerWidth = 0\<rparr>)) = 1"
  using toggleContraction_end[of "\<lparr>contractions = [], activeStart = Some 5000,
          liveScroll = True, intensity = 5, now = 5999, containerWidth = 0\<rparr>" 5000 7000]
        toggleContraction_end[of "\<lparr>contractions = [], activeStart = Some 5000,
          liveScroll = True, intensity = 5, now = 6000, containerWidth = 0\<rparr>" 5000 7000]
  by simp

section \<open>The 5-1-1 rule\<close>

lemma streak_loop_neg: "i < 0 \<Longrightarrow> streak_loop cs i b = b"
  by (subst streak_loop.simps) simp

lemma nat_succ: "0 \<le> i \<Longrightarrow> nat (i + 1) = Suc (nat i)"
  by simp

lemma streak_loop_stop:
  "0 \<le> i \<Longrightarrow> \<not> included cs (nat i) \<Longrightarrow> streak_loop cs i b = b"
  by (subst streak_loop.simps)
     (auto simp add: included_def Let_def ONE_MIN_MS_def FIVE_MIN_MS_def nat_succ)

lemma streak_loop_step:
  "0 \<le> i \<Longrightarrow> included cs (nat i) \<Longrightarrow>
   streak_loop cs i b = streak_loop cs (i - 1) (nat i)"
  by (subst streak_loop.simps)
     (auto simp add: included_def Let_def ONE_MIN_MS_def FIVE_MIN_MS_def nat_succ)

text \<open>
  The loop started at the last index \<open>m\<close> returns the least index \<open>k\<close> from which
  every step up to \<open>m\<close> is included.
\<close>

lemma streak_loop_spec:
  "streak_loop cs (int m - 1) m \<le> m \<and>
   (\<forall>j. streak_loop cs (int m - 1) m \<le> j \<and> j < m \<longrightarrow> included cs j) \<and>
   (streak_loop cs (int m - 1) m = 0 \<or> \<not> included cs (streak_loop cs (int m - 1) m - 1))"
proof (induction m)
  case 0
  then show ?case by (simp add: streak_loop_neg)
next
  case (Suc m)
  show ?case
  proof (cases "included cs m")
    case False
    then show ?thesis by (auto simp add: streak_loop_stop)
  next
    case True
    then have "streak_loop cs (int (Suc m) - 1) (Suc m) = streak_loop cs (int m - 1) m"
      using streak_loop_step[of "int m" cs "Suc m"] by simp
    with Suc True show ?thesis
      by (auto simp add: less_Suc_eq)
  qed
qed

text \<open>
  C2. For a non-empty history: when the most recent entry lasts less than 60000 ms
  there is no qualifying start. Otherwise the qualifying start is the start of the
  entry \<open>k\<close> such that every entry from \<open>k\<close> up to the one before the last lasts at
  least 60000 ms and is followed within 300000 ms (start to start), and \<open>k\<close> is the
  beginning of the history or entry \<open>k - 1\<close> fails one of the two conditions.
\<close>

theorem qualifyingStreakStart_spec:
  assumes "cs \<noteq> []"
  shows "(c_duration (last cs) < 60000 \<longrightarrow> qualifyingStreakStart cs = None) \<and>
         (c_duration (last cs) \<ge> 60000 \<longrightarrow>
            (\<exists>k < length cs.
               qualifyingStreakStart cs = Some (c_start (cs ! k)) \<and>
               (\<forall>j. k \<le> j \<and> j < length cs - 1 \<longrightarrow> included cs j) \<and>
               (k = 0 \<or> \<not> included cs (k - 1))))"
proof -
  obtain m where m: "length cs = Suc m"
    using assms by (cases cs) auto
  have l: "last cs = cs ! m"
    using assms m by (simp add: last_conv_nth)
  let ?k = "streak_loop cs (int m - 1) m"
  have q: "c_duration (last cs) \<ge> 60000 \<Longrightarrow>
           qualifyingStreakStart cs = Some (c_start (cs ! ?k))"
    by (simp add: qualifyingStreakStart_def m l ONE_MIN_MS_def)
  have n: "c_duration (last cs) < 60000 \<Longrightarrow> qualifyingStreakStart cs = None"
    by (simp add: qualifyingStreakStart_def m l ONE_MIN_MS_def)
  from streak_loop_spec[of cs m] have "?k < length cs" and
    "\<forall>j. ?k \<le> j \<and> j < length cs - 1 \<longrightarrow> included cs j" and
    "?k = 0 \<or> \<not> included cs (?k - 1)"
    by (simp_all add: m)
  with q n show ?thesis by blast
qed

theorem qualifyingStreakStart_spec_witness:
  "[\<lparr>c_id = 0, c_start = 0, c_end = 60000, c_duration = 60000, c_intensity = 1 / 2\<rparr>,
    \<lparr>c_id = 400000, c_start = 400000, c_end = 460000, c_duration = 60000,
     c_intensity = 1 / 2\<rparr>,
    \<lparr>c_id = 600000, c_start = 600000, c_end = 670000, c_duration = 70000,
     c_intensity = 1 / 2\<rparr>] \<noteq> [] \<and>
   qualifyingStreakStart
     [\<lparr>c_id = 0, c_start = 0, c_end = 60000, c_duration = 60000, c_intensity = 1 / 2\<rparr>,
      \<lparr>c_id = 400000, c_start = 400000, c_end = 460000, c_duration = 60000,
       c_intensity = 1 / 2\<rparr>,
      \<lparr>c_id = 600000, c_start = 600000, c_end = 670000, c_duration = 70000,
       c_intensity = 1 / 2\<rparr>] \<noteq> None \<and>
   qualifyingStreakStart
     [\<lparr>c_id = 0, c_start = 0, c_end = 59999, c_duration = 59999, c_intensity = 1 / 2\<rparr>]
     = None"
  using qualifyingStreakStart_spec[of
     "[\<lparr>c_id = 0, c_start = 0, c_end = 60000, c_duration = 60000, c_intensity = 1 / 2\<rparr>,
       \<lparr>c_id = 400000, c_start = 400000, c_end = 460000, c_duration = 60000,
        c_intensity = 1 / 2\<rparr>,
       \<lparr>c_id = 600000, c_start = 600000, c_end = 670000, c_duration = 70000,
        c_intensity = 1 / 2\<rparr>]"]
    qualifyingStreakStart_spec[of
     "[\<lparr>c_id = 0, c_start = 0, c_end = 59999, c_duration = 59999, c_intensity = 1 / 2\<rparr>]"]
  by auto

text \<open>
  The same history evaluated: the walk stops between the first two entries, whose
  starts are 400000 ms apart, so the streak starts at 400000.
\<close>

lemma qualifyingStreakStart_example:
  "qualifyingStreakStart
     [\<lparr>c_id = 0, c_start = 0, c_end = 60000, c_duration = 60000, c_intensity = 1 / 2\<rparr>,
      \<lparr>c_id = 400000, c_start = 400000, c_end = 460000, c_duration = 60000,
       c_intensity = 1 / 2\<rparr>,
      \<lparr>c_id = 600000, c_start = 600000, c_end = 670000, c_duration = 70000,
       c_intensity = 1 / 2\<rparr>] = Some 400000"
  by (simp add: qualifyingStreakStart_def streak_loop.simps ONE_MIN_MS_def FIVE_MIN_MS_def)

text \<open>
  C3. The streak duration is \<open>now\<close> minus the qualifying start when there is one and
  0 otherwise, and the rule is met exactly when it is at least 3600000. For four
  entries of 60000 ms each whose starts are 300000 ms apart, the qualifying start is the
  first start, and the rule is not met 3599999 ms after it and met 3600000 ms after it.
\<close>

theorem rule511Met_spec:
  "streakDuration s =
     (case qualifyingStreakStart (contractions s) of Some q \<Rightarrow> now s - q | None \<Rightarrow> 0) \<and>
   (rule511Met s \<longleftrightarrow> streakDuration s \<ge> 3600000) \<and>
   (contractions s = [e0, e1, e2, e3] \<and>
    c_duration e0 = 60000 \<and> c_duration e1 = 60000 \<and>
    c_duration e2 = 60000 \<and> c_duration e3 = 60000 \<and>
    c_start e1 = c_start e0 + 300000 \<and> c_start e2 = c_start e1 + 300000 \<and>
    c_start e3 = c_start e2 + 300000 \<longrightarrow>
      qualifyingStreakStart (contractions s) = Some (c_start e0) \<and>
      \<not> rule511Met (s\<lparr>now := c_start e0 + 3599999\<rparr>) \<and>
      rule511Met (s\<lparr>now := c_start e0 + 3600000\<rparr>))"
  by (simp add: rule511Met_def streakDuration_def ONE_HOUR_MS_def qualifyingStreakStart_def
        streak_loop.simps ONE_MIN_MS_def FIVE_MIN_MS_def)

theorem rule511Met_spec_witness:
  "qualifyingStreakStart
     [\<lparr>c_id = 1000, c_start = 1000, c_end = 61000, c_duration = 60000, c_intensity = 1 / 2\<rparr>,
      \<lparr>c_id = 301000, c_start = 301000, c_end = 361000, c_duration = 60000,
       c_intensity = 1 / 2\<rparr>,
      \<lparr>c_id = 601000, c_start = 601000, c_end = 661000, c_duration = 60000,
       c_intensity = 1 / 2\<rparr>,
      \<lparr>c_id = 901000, c_start = 901000, c_end = 961000, c_duration = 60000,
       c_intensity = 1 / 2\<rparr>] = Some 1000 \<and>
   \<not> rule511Met
     \<lparr>contractions =
        [\<lparr>c_id = 1000, c_start = 1000, c_end = 61000, c_duration = 60000, c_intensity = 1 / 2\<rparr>,
         \<lparr>c_id = 301000, c_start = 301000, c_end = 361000, c_duration = 60000,
          c_intensity = 1 / 2\<rparr>,
         \<lparr>c_id = 601000, c_start = 601000, c_end = 661000, c_duration = 60000,
          c_intensity = 1 / 2\<rparr>,
         \<lparr>c_id = 901000, c_start = 901000, c_end = 961000, c_duration = 60000,
          c_intensity = 1 / 2\<rparr>],
      activeStart = None, liveScroll = True, intensity = 5, now = 3600999,
      containerWidth = 0\<rparr> \<and>
   rule511Met
     \<lparr>contractions =
        [\<lparr>c_id = 1000, c_start = 1000, c_end = 61000, c_duration = 60000, c_intensity = 1 / 2\<rparr>,
         \<lparr>c_id = 301000, c_start = 301000, c_end = 361000, c_duration = 60000,
          c_intensity = 1 / 2\<rparr>,
         \<lparr>c_id = 601000, c_start = 601000, c_end = 661000, c_duration = 60000,
          c_intensity = 1 / 2\<rparr>,
         \<lparr>c_id = 901000, c_start = 901000, c_end = 961000, c_duration = 60000,
          c_intensity = 1 / 2\<rparr>],
      activeStart = None, liveScroll = True, intensity = 5, now = 3601000,
      containerWidth = 0\<rparr>"
  using rule511Met_spec[of
     "\<lparr>contractions =
        [\<lparr>c_id = 1000, c_start = 1000, c_end = 61000, c_duration = 60000, c_intensity = 1 / 2\<rparr>,
         \<lparr>c_id = 301000, c_start = 301000, c_end = 361000, c_duration = 60000,
          c_intensity = 1 / 2\<rparr>,
         \<lparr>c_id = 601000, c_start = 601000, c_end = 661000, c_duration = 60000,
          c_intensity = 1 / 2\<rparr>,
         \<lparr>c_id = 901000, c_start = 901000, c_end = 961000, c_duration = 60000,
          c_intensity = 1 / 2\<rparr>],
      activeStart = None, liveScroll = True, intensity = 5, now = 0,
      containerWidth = 0\<rparr>"
     "\<lparr>c_id = 1000, c_start = 1000, c_end = 61000, c_duration = 60000, c_intensity = 1 / 2\<rparr>"
     "\<lparr>c_id = 301000, c_start = 301000, c_end = 361000, c_duration = 60000,
          c_intensity = 1 / 2\<rparr>"
     "\<lparr>c_id = 601000, c_start = 601000, c_end = 661000, c_duration = 60000,
          c_intensity = 1 / 2\<rparr>"
     "\<lparr>c_id = 901000, c_start = 901000, c_end = 961000, c_duration = 60000,
          c_intensity = 1 / 2\<rparr>"]
  by simp

section \<open>Session-wide averages\<close>

lemma foldl_plus: "foldl (\<lambda>a b. a + b) a xs = a + sum_list (xs :: int list)"
  by (induction xs arbitrary: a) simp_all

lemma foldl_duration:
  "foldl (\<lambda>a b. a + c_duration b) a cs = a + sum_list (map c_duration cs)"
  by (induction cs arbitrary: a) simp_all

lemma allIntervals_nth:
  "2 \<le> length cs \<Longrightarrow>
   allIntervals cs = map (\<lambda>i. c_start (cs ! Suc i) - c_start (cs ! i)) [0 ..< length cs - 1]"
  by (rule nth_equalityI) (simp_all add: allIntervals_def)

text \<open>
  C8. Over the whole history: the average interval is the mean of the differences of
  consecutive starts, and \<open>null\<close> for fewer than two entries; the average duration is
  the mean of all durations, and \<open>null\<close> for an empty history. Neither reads the
  qualifying streak.
\<close>

theorem averages_spec:
  "avgRecentInterval cs =
     (if length cs < 2 then None
      else Some (real_of_int (\<Sum>i < length cs - 1. c_start (cs ! Suc i) - c_start (cs ! i)) /
                 real (length cs - 1))) \<and>
   avgRecentDuration cs =
     (if cs = [] then None
      else Some (real_of_int (\<Sum>c \<leftarrow> cs. c_duration c) / real (length cs)))"
proof -
  have a: "length cs < 2 \<Longrightarrow> avgRecentInterval cs = None"
    by (simp add: avgRecentInterval_def allIntervals_def)
  have b: "avgRecentInterval cs =
      Some (real_of_int (\<Sum>i < length cs - 1. c_start (cs ! Suc i) - c_start (cs ! i)) /
                 real (length cs - 1))" if "\<not> length cs < 2"
  proof -
    from that have l: "2 \<le> length cs" by simp
    have "sum_list (allIntervals cs) =
          (\<Sum>i < length cs - 1. c_start (cs ! Suc i) - c_start (cs ! i))"
      by (simp add: allIntervals_nth[OF l] interv_sum_list_conv_sum_set_nat atLeast0LessThan)
    moreover have "length (allIntervals cs) = length cs - 1"
      by (simp add: allIntervals_nth[OF l])
    ultimately show ?thesis
      using l by (simp add: avgRecentInterval_def foldl_plus)
  qed
  have c: "avgRecentDuration cs =
     (if cs = [] then None
      else Some (real_of_int (\<Sum>c \<leftarrow> cs. c_duration c) / real (length cs)))"
    by (simp add: avgRecentDuration_def foldl_duration)
  from a b c show ?thesis by simp
qed

theorem averages_spec_witness:
  "avgRecentInterval
     [\<lparr>c_id = 0, c_start = 0, c_end = 60000, c_duration = 60000, c_intensity = 1 / 2\<rparr>,
      \<lparr>c_id = 400000, c_start = 400000, c_end = 460000, c_duration = 60000,
       c_intensity = 1 / 2\<rparr>,
      \<lparr>c_id = 600000, c_start = 600000, c_end = 670000, c_duration = 70000,
       c_intensity = 1 / 2\<rparr>] = Some 300000 \<and>
   avgRecentDuration
     [\<lparr>c_id = 0, c_start = 0, c_end = 60000, c_duration = 60000, c_intensity = 1 / 2\<rparr>,
      \<lparr>c_id = 400000, c_start = 400000, c_end = 460000, c_duration = 60000,
       c_intensity = 1 / 2\<rparr>,
      \<lparr>c_id = 600000, c_start = 600000, c_end = 670000, c_duration = 70000,
       c_intensity = 1 / 2\<rparr>] = Some (190000 / 3) \<and>
   avgRecentInterval
     [\<lparr>c_id = 0, c_start = 0, c_end = 60000, c_duration = 60000, c_intensity = 1 / 2\<rparr>] = None \<and>
   avgRecentDuration [] = None"
  using averages_spec[of
     "[\<lparr>c_id = 0, c_start = 0, c_end = 60000, c_duration = 60000, c_intensity = 1 / 2\<rparr>,
      \<lparr>c_id = 400000, c_start = 400000, c_end = 460000, c_duration = 60000,
       c_intensity = 1 / 2\<rparr>,
      \<lparr>c_id = 600000, c_start = 600000, c_end = 670000, c_duration = 70000,
       c_intensity = 1 / 2\<rparr>]"]
    averages_spec[of
     "[\<lparr>c_id = 0, c_start = 0, c_end = 60000, c_duration = 60000, c_intensity = 1 / 2\<rparr>]"]
    averages_spec[of "[]"]
  by (simp add: lessThan_Suc numeral_2_eq_2)

section \<open>Panning\<close>

lemma add_max_ge: "(k::real) \<le> b \<Longrightarrow> 0 \<le> m \<Longrightarrow> k \<le> b + max m w"
  by linarith

lemma forEach_body_cursor: "52 \<le> snd st \<Longrightarrow> 52 \<le> snd (forEach_body cs st ci)"
  by (cases st; cases ci) (simp add: Let_def MIN_REST_PX_def add_max_ge)

lemma foldl_forEach_cursor:
  "52 \<le> snd st \<Longrightarrow> 52 \<le> snd (foldl (forEach_body cs) st ps)"
  by (induction ps arbitrary: st) (simp_all add: forEach_body_cursor)

lemma active_block_cursor: "52 \<le> snd st \<Longrightarrow> 52 \<le> snd (active_block s st)"
  by (cases st)
     (simp add: active_block_def Let_def MIN_REST_PX_def add_max_ge split: option.splits)

text \<open>The chart is never narrower than the axis offset and the two fixed gaps.\<close>

lemma svgWidth_ge: "76 \<le> svgWidth s"
proof -
  have "52 \<le> snd (active_block s (foldl (forEach_body (contractions s))
      ([flat_seg (Y_AXIS_W + 8 - LEAD_PX) LEAD_PX None], Y_AXIS_W + 8)
      (zip (contractions s) [0 ..< length (contractions s)])))"
    by (rule active_block_cursor, rule foldl_forEach_cursor) (simp add: Y_AXIS_W_def)
  then show ?thesis
    by (auto simp add: svgWidth_def build_chart_def Let_def LEAD_PX_def split: prod.splits)
qed

text \<open>
  C6. In live mode with a measured container, \<open>panX\<close> is
  \<open>clamp(containerWidth - svgWidth, -(svgWidth - Y_AXIS_W), 0)\<close>; with an unmeasured
  container \<open>svgWidth\<close> stands in for the container width and \<open>panX\<close> is 0; \<open>panX\<close> is 0
  whenever the chart fits the container; outside live mode \<open>panX\<close> is 0. In every
  case \<open>-(svgWidth - Y_AXIS_W) \<le> panX \<le> 0\<close>. The total extent is the \<open>svgWidth\<close> of
  the session, which is at least 76.
\<close>

theorem panX_spec:
  "(liveScroll s \<and> containerWidth s > 0 \<longrightarrow>
      panX s = clamp (containerWidth s - svgWidth s) (- (svgWidth s - Y_AXIS_W)) 0) \<and>
   (liveScroll s \<and> \<not> containerWidth s > 0 \<longrightarrow>
      panX s = clamp (svgWidth s - svgWidth s) (- (svgWidth s - Y_AXIS_W)) 0 \<and> panX s = 0) \<and>
   (liveScroll s \<and> svgWidth s \<le> containerWidth s \<longrightarrow> panX s = 0) \<and>
   (\<not> liveScroll s \<longrightarrow> panX s = 0) \<and>
   panX s \<le> 0 \<and> - (svgWidth s - Y_AXIS_W) \<le> panX s"
  using svgWidth_ge[of s]
  by (auto simp add: panX_def clamp_def Let_def Y_AXIS_W_def)

lemma svgWidth_initial:
  "svgWidth (initial_session [] t0\<lparr>liveScroll := b, containerWidth := w\<rparr>) = 76"
  by (simp add: svgWidth_def build_chart_def initial_session_def
        active_block_def truthy_ts_def Y_AXIS_W_def LEAD_PX_def)

theorem panX_spec_witness:
  "panX (initial_session [] 0\<lparr>liveScroll := True, containerWidth := 50\<rparr>) = - 26 \<and>
   panX (initial_session [] 0\<lparr>liveScroll := True, containerWidth := 0\<rparr>) = 0 \<and>
   panX (initial_session [] 0\<lparr>liveScroll := True, containerWidth := 100\<rparr>) = 0 \<and>
   panX (initial_session [] 0\<lparr>liveScroll := False, containerWidth := 50\<rparr>) = 0"
  using panX_spec[of "initial_session [] 0\<lparr>liveScroll := True, containerWidth := 50\<rparr>"]
        panX_spec[of "initial_session [] 0\<lparr>liveScroll := True, containerWidth := 0\<rparr>"]
        panX_spec[of "initial_session [] 0\<lparr>liveScroll := True, containerWidth := 100\<rparr>"]
        panX_spec[of "initial_session [] 0\<lparr>liveScroll := False, containerWidth := 50\<rparr>"]
  by (simp add: svgWidth_initial clamp_def Y_AXIS_W_def)

section \<open>Loading the stored session\<close>

text \<open>
  C9. The initialiser returns the empty array when reading the store throws, when
  the key is absent (\<open>JSON.parse(null)\<close> is \<open>null\<close>), when the stored text does not
  parse, and when it parses to a falsy value. It returns a value for every stored text:
  the empty array, or a truthy value that \<open>JSON.parse\<close> returned; no exception leaves
  it.
\<close>

theorem load_contractions_spec:
  "load_contractions parse ReadThrows = JArray [] \<and>
   (parse ''null'' = Some JNull \<longrightarrow> load_contractions parse Absent = JArray []) \<and>
   (parse t = None \<longrightarrow> load_contractions parse (Stored t) = JArray []) \<and>
   (parse t = Some v \<and> \<not> js_truthy v \<longrightarrow> load_contractions parse (Stored t) = JArray []) \<and>
   (load_contractions parse r = JArray [] \<or>
    js_truthy (load_contractions parse r) \<and>
    (\<exists>u. parse u = Some (load_contractions parse r)))"
  by (auto simp add: load_contractions_def split: storage_read.splits option.splits)

theorem load_contractions_spec_witness:
  "load_contractions (\<lambda>t. if t = ''null'' then Some JNull
                           else if t = ''0'' then Some (JNumber 0) else None) Absent
     = JArray [] \<and>
   load_contractions (\<lambda>t. if t = ''null'' then Some JNull
                           else if t = ''0'' then Some (JNumber 0) else None) (Stored ''[{'')
     = JArray [] \<and>
   load_contractions (\<lambda>t. if t = ''null'' then Some JNull
                           else if t = ''0'' then Some (JNumber 0) else None) (Stored ''0'')
     = JArray []"
  using load_contractions_spec[of
      "\<lambda>t. if t = ''null'' then Some JNull else if t = ''0'' then Some (JNumber 0) else None"
      "''[{''" "JNull" Absent]
    load_contractions_spec[of
      "\<lambda>t. if t = ''null'' then Some JNull else if t = ''0'' then Some (JNumber 0) else None"
      "''0''" "JNumber 0" Absent]
  by simp

section \<open>Intensities\<close>

lemma exec_intensity_inv:
  "intensity_inv loaded s \<Longrightarrow> from_ui c \<Longrightarrow> intensity_inv loaded (exec s c)"
  by (cases c)
     (auto simp add: intensity_inv_def toggleContraction_def clearSession_def tenth_def Let_def
           split: option.splits)

lemma run_intensity_inv:
  "intensity_inv loaded s \<Longrightarrow> list_all from_ui cmds \<Longrightarrow> intensity_inv loaded (run s cmds)"
  unfolding run_def
  by (induction cmds arbitrary: s) (simp_all add: exec_intensity_inv)

lemma initial_intensity_inv: "intensity_inv loaded (initial_session loaded t0)"
  by (simp add: intensity_inv_def initial_session_def list_all_iff)

lemma toggle_last:
  "truthy_ts (activeStart s) = Some a \<Longrightarrow> 1000 \<le> now s - a \<Longrightarrow>
   contractions (toggleContraction d s) =
     contractions s @ [\<lparr>c_id = a, c_start = a, c_end = now s, c_duration = now s - a,
                        c_intensity = real_of_int (intensity s) / 10\<rparr>]"
  by (simp add: toggleContraction_def Let_def)

lemma segments_active:
  "truthy_ts (activeStart s) = Some a \<Longrightarrow>
   \<exists>pre x0 w. segments s =
      pre @ [active_seg x0 w (real_of_int (intensity s) / 10),
             flat_seg (svgWidth s - LEAD_PX) LEAD_PX None]"
  by (auto simp add: segments_def svgWidth_def build_chart_def active_block_def Let_def
           split: prod.splits)

text \<open>
  C10. In every state that the interface reaches from the initial state, the intensity
  setting is between 1 and 10 (it starts at 5 and the slider reports 1 to 10). Ending a
  contraction there stores the setting divided by 10, a value between 0.1 and 1 and not
  0; the bell of a contraction in progress, the segment before the trailing gap,
  carries the same value; and every entry of the history that was not loaded has an
  intensity between 0.1 and 1.
\<close>

theorem intensity_spec:
  assumes "list_all from_ui cmds" and "s = run (initial_session loaded t0) cmds"
  shows "1 \<le> intensity s \<and> intensity s \<le> 10 \<and>
         (\<forall>a d. truthy_ts (activeStart s) = Some a \<and> 1000 \<le> now s - a \<longrightarrow>
            (\<exists>e. contractions (toggleContraction d s) = contractions s @ [e] \<and>
                 c_intensity e = real_of_int (intensity s) / 10 \<and>
                 1 / 10 \<le> c_intensity e \<and> c_intensity e \<le> 1 \<and> c_intensity e \<noteq> 0)) \<and>
         (\<forall>a. truthy_ts (activeStart s) = Some a \<longrightarrow>
            (\<exists>pre x0 w v. segments s =
                 pre @ [active_seg x0 w v, flat_seg (svgWidth s - LEAD_PX) LEAD_PX None] \<and>
                 v = real_of_int (intensity s) / 10 \<and> 1 / 10 \<le> v \<and> v \<le> 1 \<and> v \<noteq> 0)) \<and>
         list_all (\<lambda>e. e \<in> set loaded \<or> (1 / 10 \<le> c_intensity e \<and> c_intensity e \<le> 1))
           (contractions s)"
proof -
  have inv: "intensity_inv loaded s"
    unfolding assms(2) by (rule run_intensity_inv[OF initial_intensity_inv assms(1)])
  then have r: "1 \<le> intensity s" "intensity s \<le> 10"
    by (simp_all add: intensity_inv_def)
  then have t: "1 / 10 \<le> real_of_int (intensity s) / 10"
    "real_of_int (intensity s) / 10 \<le> 1" "real_of_int (intensity s) / 10 \<noteq> 0"
    by simp_all
  have e: "\<forall>a d. truthy_ts (activeStart s) = Some a \<and> 1000 \<le> now s - a \<longrightarrow>
            (\<exists>e. contractions (toggleContraction d s) = contractions s @ [e] \<and>
                 c_intensity e = real_of_int (intensity s) / 10 \<and>
                 1 / 10 \<le> c_intensity e \<and> c_intensity e \<le> 1 \<and> c_intensity e \<noteq> 0)"
    using t by (simp add: toggle_last)
  have g: "\<forall>a. truthy_ts (activeStart s) = Some a \<longrightarrow>
            (\<exists>pre x0 w v. segments s =
                 pre @ [active_seg x0 w v, flat_seg (svgWidth s - LEAD_PX) LEAD_PX None] \<and>
                 v = real_of_int (intensity s) / 10 \<and> 1 / 10 \<le> v \<and> v \<le> 1 \<and> v \<noteq> 0)"
    using t segments_active[of s] by blast
  have h: "list_all (\<lambda>e. e \<in> set loaded \<or> (1 / 10 \<le> c_intensity e \<and> c_intensity e \<le> 1))
           (contractions s)"
    using inv by (simp add: intensity_inv_def tenth_def)
  from r e g h show ?thesis by blast
qed

lemma run_example:
  "run (initial_session [] 0) [SetIntensity 1, Toggle 5000, Tick 7000] =
     \<lparr>contractions = [], activeStart = Some 5000, liveScroll = True, intensity = 1,
      now = 7000, containerWidth = 0\<rparr>"
  by (simp add: run_def initial_session_def toggleContraction_def truthy_ts_def Let_def)

theorem intensity_spec_witness:
  "list_all from_ui [SetIntensity 1, Toggle 5000, Tick 7000] \<and>
   truthy_ts (activeStart (run (initial_session [] 0)
      [SetIntensity 1, Toggle 5000, Tick 7000])) = Some 5000 \<and>
   1000 \<le> now (run (initial_session [] 0) [SetIntensity 1, Toggle 5000, Tick 7000]) - 5000 \<and>
   (\<exists>e. contractions (toggleContraction 7001
            (run (initial_session [] 0) [SetIntensity 1, Toggle 5000, Tick 7000])) = [e] \<and>
        c_intensity e = 1 / 10) \<and>
   (\<exists>pre x0 w. segments (run (initial_session [] 0) [SetIntensity 1, Toggle 5000, Tick 7000]) =
        pre @ [active_seg x0 w (1 / 10),
               flat_seg (svgWidth (run (initial_session [] 0)
                 [SetIntensity 1, Toggle 5000, Tick 7000]) - LEAD_PX) LEAD_PX None])"
proof -
  let ?R = "run (initial_session [] 0) [SetIntensity 1, Toggle 5000, Tick 7000]"
  have c: "list_all from_ui [SetIntensity 1, Toggle 5000, Tick 7000]"
    by simp
  have h: "truthy_ts (activeStart ?R) = Some 5000 \<and> 1000 \<le> now ?R - 5000"
    by (simp add: run_example truthy_ts_def)
  from intensity_spec[OF c refl, of "[]" 0] have
    e: "\<And>a d. truthy_ts (activeStart ?R) = Some a \<and> 1000 \<le> now ?R - a \<Longrightarrow>
          \<exists>e. contractions (toggleContraction d ?R) = contractions ?R @ [e] \<and>
              c_intensity e = real_of_int (intensity ?R) / 10" and
    g: "\<And>a. truthy_ts (activeStart ?R) = Some a \<Longrightarrow>
          \<exists>pre x0 w. segments ?R =
             pre @ [active_seg x0 w (real_of_int (intensity ?R) / 10),
                    flat_seg (svgWidth ?R - LEAD_PX) LEAD_PX None]"
    by blast+
  have i: "real_of_int (intensity ?R) / 10 = 1 / 10" and n: "contractions ?R = []"
    by (simp_all add: run_example)
  from e[OF h, of 7001] g[of 5000] h c show ?thesis
    unfolding i n by simp
qed

section \<open>The bell curve\<close>

lemma gauss_shape: "gauss t = shape_spec t"
  by (simp add: gauss_def shape_spec_def g_spec_def Let_def power2_eq_square)

lemma g_spec_half: "g_spec (1 / 2) = 1"
  by (simp add: g_spec_def)

lemma g_spec_one: "g_spec 1 = g_spec 0"
  by (simp add: g_spec_def power2_eq_square)

lemma g_spec_zero_lt: "g_spec 0 < 1"
  by (simp add: g_spec_def)

lemma g_spec_mono_left:
  assumes "0 \<le> a" "a \<le> b" "b \<le> 1 / 2"
  shows "g_spec a \<le> g_spec b"
proof -
  have "(b - 1 / 2) ^ 2 \<le> (a - 1 / 2) ^ 2"
    using assms by (simp add: abs_le_square_iff[symmetric])
  then show ?thesis
    by (simp add: g_spec_def divide_le_cancel)
qed

lemma g_spec_mono_right:
  assumes "1 / 2 \<le> a" "a \<le> b" "b \<le> 1"
  shows "g_spec b \<le> g_spec a"
proof -
  have "(a - 1 / 2) ^ 2 \<le> (b - 1 / 2) ^ 2"
    using assms by (simp add: abs_le_square_iff[symmetric])
  then show ?thesis
    by (simp add: g_spec_def divide_le_cancel)
qed

lemma g_spec_strict_left:
  assumes "0 \<le> a" "a < b" "b \<le> 1 / 2"
  shows "g_spec a < g_spec b"
proof -
  have "\<bar>b - 1 / 2\<bar> ^ 2 < \<bar>a - 1 / 2\<bar> ^ 2"
    using assms by (intro power_strict_mono) simp_all
  then have "(b - 1 / 2) ^ 2 < (a - 1 / 2) ^ 2"
    by simp
  then show ?thesis
    by (simp add: g_spec_def divide_less_cancel)
qed

lemma g_spec_strict_right:
  assumes "1 / 2 \<le> a" "a < b" "b \<le> 1"
  shows "g_spec b < g_spec a"
proof -
  have "\<bar>a - 1 / 2\<bar> ^ 2 < \<bar>b - 1 / 2\<bar> ^ 2"
    using assms by (intro power_strict_mono) simp_all
  then have "(a - 1 / 2) ^ 2 < (b - 1 / 2) ^ 2"
    by simp
  then show ?thesis
    by (simp add: g_spec_def divide_less_cancel)
qed

lemma g_spec_ge_zero: "0 \<le> t \<Longrightarrow> t \<le> 1 \<Longrightarrow> g_spec 0 \<le> g_spec t"
  using g_spec_mono_left[of 0 t] g_spec_mono_right[of t 1] g_spec_one
  by (cases "t \<le> 1 / 2") simp_all

lemma shape_spec_unit:
  "0 \<le> t \<Longrightarrow> t \<le> 1 \<Longrightarrow> shape_spec t = (g_spec t - g_spec 0) / (1 - g_spec 0)"
  using g_spec_ge_zero[of t] g_spec_zero_lt
  by (simp add: shape_spec_def g_spec_half)

lemma shape_strict:
  assumes "0 \<le> a" "a \<le> 1" "0 \<le> b" "b \<le> 1" "g_spec a < g_spec b"
  shows "shape_spec a < shape_spec b"
  using assms g_spec_zero_lt
  by (simp add: shape_spec_unit divide_strict_right_mono)

text \<open>
  C5. Over the real numbers: \<open>gauss\<close> is 0 at 0 and at 1 and 1 at 0.5, it is never
  negative, it increases strictly on \<open>[0, 0.5]\<close> and decreases strictly on
  \<open>[0.5, 1]\<close>, and it is the rescaled Gaussian \<open>shape\<close> of the specification at every
  argument.
\<close>

theorem gauss_spec:
  "gauss 0 = 0 \<and> gauss 1 = 0 \<and> gauss 0.5 = 1 \<and>
   (\<forall>t. 0 \<le> gauss t) \<and>
   (\<forall>a b. 0 \<le> a \<and> a < b \<and> b \<le> 1 / 2 \<longrightarrow> gauss a < gauss b) \<and>
   (\<forall>a b. 1 / 2 \<le> a \<and> a < b \<and> b \<le> 1 \<longrightarrow> gauss b < gauss a) \<and>
   (\<forall>t. gauss t = shape_spec t)"
proof -
  have z: "gauss 0 = 0"
    by (simp add: gauss_shape shape_spec_def)
  have o: "gauss 1 = 0"
    by (simp add: gauss_shape shape_spec_def g_spec_one)
  have h: "gauss 0.5 = 1"
    using g_spec_zero_lt by (simp add: gauss_shape shape_spec_def g_spec_half)
  have n: "\<forall>t. 0 \<le> gauss t"
    by (simp add: gauss_shape shape_spec_def)
  have l: "\<forall>a b. 0 \<le> a \<and> a < b \<and> b \<le> 1 / 2 \<longrightarrow> gauss a < gauss b"
    unfolding gauss_shape
    by (intro allI impI shape_strict g_spec_strict_left) simp_all
  have r: "\<forall>a b. 1 / 2 \<le> a \<and> a < b \<and> b \<le> 1 \<longrightarrow> gauss b < gauss a"
    unfolding gauss_shape
    by (intro allI impI shape_strict g_spec_strict_right) simp_all
  have e: "\<forall>t. gauss t = shape_spec t"
    by (simp add: gauss_shape)
  from z o h n l r e show ?thesis by blast
qed

theorem gauss_spec_witness:
  "gauss 0 < gauss (1 / 4) \<and> gauss (1 / 4) < gauss (1 / 2) \<and>
   gauss 1 < gauss (3 / 4) \<and> gauss (3 / 4) < gauss (1 / 2) \<and> gauss (1 / 2) = 1"
proof -
  from gauss_spec have
    l: "\<And>a b. 0 \<le> a \<and> a < b \<and> b \<le> 1 / 2 \<Longrightarrow> gauss a < gauss b" and
    r: "\<And>a b. 1 / 2 \<le> a \<and> a < b \<and> b \<le> 1 \<Longrightarrow> gauss b < gauss a" and
    h: "gauss 0.5 = 1"
    by blast+
  from l[of 0 "1 / 4"] l[of "1 / 4" "1 / 2"] r[of "3 / 4" 1] r[of "1 / 2" "3 / 4"] h
  show ?thesis by simp
qed

end
